theory Spec2Isabelle
  imports Complex_Main
begin

section \<open>Configuration (core/config.py)\<close>

text \<open>The fields of \<^verbatim>\<open>Settings\<close> that the decision engine reads. Times, angles,
  energies and confidences are Python floats; they are modelled as real numbers, and so
  is the cooldown, an integer number of seconds that the code compares with a float.\<close>

record settings =
  EYE_GAZE_THRESHOLD :: real
  ALERT_COOLDOWN_SECONDS :: real
  MAX_FACES_ALLOWED :: int
  GEMINI_API_KEY :: string
  ENABLE_AI_VERIFICATION :: bool
  AI_VERIFICATION_CONFIDENCE_THRESHOLD :: real

definition default_settings :: settings where
  "default_settings =
     \<lparr>EYE_GAZE_THRESHOLD = 2.0, ALERT_COOLDOWN_SECONDS = 3, MAX_FACES_ALLOWED = 1,
      GEMINI_API_KEY = [], ENABLE_AI_VERIFICATION = False,
      AI_VERIFICATION_CONFIDENCE_THRESHOLD = 0.7\<rparr>"

section \<open>FrameAnalyzer (utils/frame_utils.py)\<close>

text \<open>The image operations of OpenCV and scikit-image are outside the model. A value of
  type \<open>'f cv\<close> gives, for the frames of type \<open>'f\<close>, the mean gray intensity of a frame
  and the structural similarity of two frames; \<open>None\<close> stands for a raised exception.\<close>

record 'f cv =
  gray_mean :: "'f \<Rightarrow> real option"
  ssim_index :: "'f \<Rightarrow> 'f \<Rightarrow> real option"

record 'f frame_analyzer =
  ssim_threshold :: real
  black_threshold :: real
  previous_frame :: "'f option"
  frame_count :: int

definition init_frame_analyzer :: "real \<Rightarrow> real \<Rightarrow> 'f frame_analyzer" where
  "init_frame_analyzer st bt =
     \<lparr>ssim_threshold = st, black_threshold = bt, previous_frame = None, frame_count = 0\<rparr>"

definition calculate_ssim :: "'f cv \<Rightarrow> 'f \<Rightarrow> 'f \<Rightarrow> real" where
  "calculate_ssim c frame1 frame2 =
     (case ssim_index c frame1 frame2 of Some s \<Rightarrow> s | None \<Rightarrow> 0.0)"

definition is_black_screen :: "'f cv \<Rightarrow> 'f \<Rightarrow> 'f frame_analyzer \<Rightarrow> bool" where
  "is_black_screen c frame fa =
     (case gray_mean c frame of
        Some avg_intensity \<Rightarrow> avg_intensity < black_threshold fa
      | None \<Rightarrow> False)"

definition is_duplicate_frame ::
  "'f cv \<Rightarrow> 'f \<Rightarrow> 'f frame_analyzer \<Rightarrow> bool \<times> 'f frame_analyzer" where
  "is_duplicate_frame c current_frame fa =
     (let fa1 = fa\<lparr>frame_count := frame_count fa + 1\<rparr> in
      case previous_frame fa1 of
        None \<Rightarrow> (False, fa1\<lparr>previous_frame := Some current_frame\<rparr>)
      | Some prev \<Rightarrow>
          (let similarity = calculate_ssim c prev current_frame;
               is_duplicate = (similarity > ssim_threshold fa1)
           in if is_duplicate then (True, fa1)
              else (False, fa1\<lparr>previous_frame := Some current_frame\<rparr>)))"

definition should_process_frame ::
  "'f cv \<Rightarrow> 'f \<Rightarrow> int \<Rightarrow> 'f frame_analyzer \<Rightarrow> (bool \<times> string) \<times> 'f frame_analyzer" where
  "should_process_frame c frame skip_mod fa =
     (if is_black_screen c frame fa then ((False, ''black_screen''), fa)
      else if skip_mod > 1 \<and> frame_count fa mod skip_mod \<noteq> 0
        then ((False, ''frame_skipped''), fa)
      else (case is_duplicate_frame c frame fa of
              (True, fa') \<Rightarrow> ((False, ''duplicate_frame''), fa')
            | (False, fa') \<Rightarrow> ((True, ''ok''), fa')))"

definition reset_frame_analyzer :: "'f frame_analyzer \<Rightarrow> 'f frame_analyzer" where
  "reset_frame_analyzer fa = fa\<lparr>previous_frame := None, frame_count := 0\<rparr>"

section \<open>EyeGazeTracker (ml_models/eye_tracker.py)\<close>

record eye_tracker =
  threshold_seconds :: real
  looking_away_start :: "real option"
  total_looking_away_time :: real
  neutral_pitch :: real
  neutral_yaw :: real
  neutral_roll :: real
  is_calibrated :: bool
  calibration_frames :: "(real \<times> real \<times> real) list"

definition HEAD_ROTATION_THRESHOLD :: real where
  "HEAD_ROTATION_THRESHOLD = 25.0"

definition calibration_frame_count :: nat where
  "calibration_frame_count = 10"

definition init_eye_tracker :: "real \<Rightarrow> eye_tracker" where
  "init_eye_tracker ts =
     \<lparr>threshold_seconds = ts, looking_away_start = None, total_looking_away_time = 0,
      neutral_pitch = 0.0, neutral_yaw = 0.0, neutral_roll = 0.0,
      is_calibrated = False, calibration_frames = []\<rparr>"

text \<open>\<^verbatim>\<open>np.median\<close> of a non-empty list: the middle element of the sorted list, or the
  mean of the two middle elements when the length is even. (On the empty list numpy
  returns nan; \<open>calibrate\<close> calls it on exactly \<open>calibration_frame_count\<close> values.)\<close>

definition np_median :: "real list \<Rightarrow> real" where
  "np_median xs =
     (let s = sort xs; n = length xs in
      if even n then (s ! (n div 2 - 1) + s ! (n div 2)) / 2 else s ! (n div 2))"

definition calibrate :: "real \<Rightarrow> real \<Rightarrow> real \<Rightarrow> eye_tracker \<Rightarrow> eye_tracker" where
  "calibrate pitch yaw roll et =
     (if length (calibration_frames et) < calibration_frame_count then
        (let et1 = et\<lparr>calibration_frames := calibration_frames et @ [(pitch, yaw, roll)]\<rparr> in
         if length (calibration_frames et1) = calibration_frame_count then
           (let pitches = map (\<lambda>(p, y, r). p) (calibration_frames et1);
                yaws = map (\<lambda>(p, y, r). y) (calibration_frames et1);
                rolls = map (\<lambda>(p, y, r). r) (calibration_frames et1)
            in et1\<lparr>neutral_pitch := np_median pitches, neutral_yaw := np_median yaws,
                   neutral_roll := np_median rolls, is_calibrated := True\<rparr>)
         else et1)
      else et)"

definition is_looking_away :: "real \<Rightarrow> real \<Rightarrow> real \<Rightarrow> eye_tracker \<Rightarrow> bool \<times> string" where
  "is_looking_away pitch yaw roll et =
     (let pitch_diff = (if is_calibrated et then pitch - neutral_pitch et else pitch);
          yaw_diff = (if is_calibrated et then yaw - neutral_yaw et else yaw)
      in if \<bar>yaw_diff\<bar> > HEAD_ROTATION_THRESHOLD
           then (True, if yaw_diff < 0 then ''left'' else ''right'')
         else if \<bar>pitch_diff\<bar> > HEAD_ROTATION_THRESHOLD
           then (True, if pitch_diff > 0 then ''down'' else ''up'')
         else (False, ''center''))"

text \<open>The result of \<^verbatim>\<open>detect_iris_position\<close>, when it is not \<^verbatim>\<open>None\<close>.\<close>

record iris_result =
  iris_x_ratio :: real
  iris_y_ratio :: real
  iris_direction :: string
  iris_looking_away :: bool

text \<open>What the face mesh and the two estimators give for one image: no face landmarks,
  or a first face with the iris estimate and the head pose (pitch, yaw, roll), each of
  which may be missing.\<close>

datatype mesh = NoFace | Face "iris_result option" "(real \<times> real \<times> real) option"

text \<open>The dictionary returned by \<^verbatim>\<open>track_gaze\<close>. A key that one return statement
  has and the other has not is an option: \<open>None\<close> is the absent key.\<close>

record gaze_result =
  g_face_detected :: bool
  g_looking_away :: bool
  g_gaze_direction :: string
  g_pitch :: real
  g_yaw :: real
  g_roll :: real
  g_duration :: real
  g_violation :: bool
  g_alert_type :: "string option option"
  g_total_away_time :: "real option"

text \<open>Lines 442-468 of \<^verbatim>\<open>track_gaze\<close>: the defaults, the iris estimate, then the
  head pose with calibration. Returns the flag, the direction, the reported angles
  and the tracker.\<close>

definition fuse_estimates ::
  "iris_result option \<Rightarrow> (real \<times> real \<times> real) option \<Rightarrow> eye_tracker \<Rightarrow>
     (bool \<times> string \<times> real \<times> real \<times> real) \<times> eye_tracker" where
  "fuse_estimates iris_res pose_result et =
     (let (looking_away, gaze_direction) =
            (case iris_res of
               Some ir \<Rightarrow> (iris_looking_away ir, iris_direction ir)
             | None \<Rightarrow> (False, ''center''))
      in case pose_result of
           None \<Rightarrow> ((looking_away, gaze_direction, 0, 0, 0), et)
         | Some (pitch, yaw, roll) \<Rightarrow>
             (let et1 = (if \<not> is_calibrated et then calibrate pitch yaw roll et else et);
                  (head_looking_away, head_direction) = is_looking_away pitch yaw roll et1
              in if iris_res = None \<or> head_looking_away
                   then ((head_looking_away, head_direction, pitch, yaw, roll), et1)
                 else ((looking_away, gaze_direction, pitch, yaw, roll), et1)))"

text \<open>Lines 470-480 of \<^verbatim>\<open>track_gaze\<close>: the duration of looking away.\<close>

definition track_duration :: "real \<Rightarrow> bool \<Rightarrow> eye_tracker \<Rightarrow> real \<times> eye_tracker" where
  "track_duration current_time looking_away et =
     (if looking_away then
        (let start = (case looking_away_start et of None \<Rightarrow> current_time | Some s \<Rightarrow> s)
         in (current_time - start, et\<lparr>looking_away_start := Some start\<rparr>))
      else
        (let total = (case looking_away_start et of
                        Some s \<Rightarrow> total_looking_away_time et + (current_time - s)
                      | None \<Rightarrow> total_looking_away_time et)
         in (0, et\<lparr>total_looking_away_time := total, looking_away_start := None\<rparr>)))"

definition track_gaze :: "real \<Rightarrow> mesh \<Rightarrow> eye_tracker \<Rightarrow> gaze_result \<times> eye_tracker" where
  "track_gaze current_time m et =
     (case m of
        NoFace \<Rightarrow>
          (\<lparr>g_face_detected = False, g_looking_away = False, g_gaze_direction = ''unknown'',
            g_pitch = 0, g_yaw = 0, g_roll = 0, g_duration = 0, g_violation = False,
            g_alert_type = None, g_total_away_time = None\<rparr>, et)
      | Face iris_res pose_result \<Rightarrow>
          (let ((looking_away, gaze_direction, pitch, yaw, roll), et1) =
                 fuse_estimates iris_res pose_result et;
               (duration, et2) = track_duration current_time looking_away et1;
               violation = (duration > threshold_seconds et2)
           in (\<lparr>g_face_detected = True, g_looking_away = looking_away,
                 g_gaze_direction = gaze_direction,
                 g_pitch = pitch, g_yaw = yaw, g_roll = roll, g_duration = duration,
                 g_violation = violation,
                 g_alert_type = Some (if violation then Some ''eyes_looking_away'' else None),
                 g_total_away_time = Some (total_looking_away_time et2)\<rparr>, et2)))"

definition reset_eye_tracker :: "eye_tracker \<Rightarrow> eye_tracker" where
  "reset_eye_tracker et =
     et\<lparr>looking_away_start := None, total_looking_away_time := 0,
        is_calibrated := False, calibration_frames := []\<rparr>"

section \<open>AudioAnalyzer (ml_models/audio_analyzer.py)\<close>

record audio_frame =
  af_energy :: real
  af_zcr :: real
  af_has_speech :: bool

record audio_analyzer =
  speech_threshold :: real
  audio_history :: "audio_frame list"
  baseline_energy :: "real option"
  anomaly_count :: int
  last_anomaly_time :: "real option"

definition init_audio_analyzer :: audio_analyzer where
  "init_audio_analyzer =
     \<lparr>speech_threshold = 0.02, audio_history = [], baseline_energy = None,
      anomaly_count = 0, last_anomaly_time = None\<rparr>"

record audio_result =
  a_energy :: real
  a_has_speech :: bool
  a_anomaly_detected :: bool
  a_anomaly_type :: "string option"
  a_anomaly_count :: int
  a_violation :: bool
  a_baseline_energy :: "real option"

text \<open>\<^verbatim>\<open>deque(maxlen=50).append\<close>: the oldest entry is dropped when the deque is full.\<close>

definition deque_append :: "'a list \<Rightarrow> 'a \<Rightarrow> 'a list" where
  "deque_append h x = (if length h \<ge> 50 then tl h else h) @ [x]"

text \<open>\<^verbatim>\<open>analyze_audio\<close>. The chunk is given by its RMS energy and zero-crossing rate,
  which numpy computes from the samples; \<open>current_time\<close> is the clock.\<close>

definition analyze_audio ::
  "real \<Rightarrow> real \<Rightarrow> real \<Rightarrow> audio_analyzer \<Rightarrow> audio_result \<times> audio_analyzer" where
  "analyze_audio current_time energy zcr aa =
     (let has_speech = (energy > speech_threshold aa);
          aa1 = (if baseline_energy aa = None \<and> has_speech
                 then aa\<lparr>baseline_energy := Some energy\<rparr> else aa);
          aa2 = aa1\<lparr>audio_history :=
                  deque_append (audio_history aa1)
                    \<lparr>af_energy = energy, af_zcr = zcr, af_has_speech = has_speech\<rparr>\<rparr>;
          spike = (case baseline_energy aa2 of
                     Some b \<Rightarrow> b \<noteq> 0 \<and> energy > b * 2.5
                   | None \<Rightarrow> False);
          aa3 = (if spike then aa2\<lparr>anomaly_count := anomaly_count aa2 + 1\<rparr> else aa2);
          sudden = (length (audio_history aa3) > 1 \<and>
                    (let prev_energy =
                           af_energy (audio_history aa3 ! (length (audio_history aa3) - 2));
                         energy_change = \<bar>energy - prev_energy\<bar>
                     in energy_change > 0.1 \<and> has_speech));
          anomaly_detected = (spike \<or> sudden);
          anomaly_type = (if sudden then Some ''sudden_change''
                          else if spike then Some ''high_energy_spike'' else None);
          aa4 = (if anomaly_detected then aa3\<lparr>last_anomaly_time := Some current_time\<rparr>
                 else aa3);
          violation = (anomaly_count aa4 > 3 \<and> anomaly_detected)
      in (\<lparr>a_energy = energy, a_has_speech = has_speech,
            a_anomaly_detected = anomaly_detected, a_anomaly_type = anomaly_type,
            a_anomaly_count = anomaly_count aa4, a_violation = violation,
            a_baseline_energy = baseline_energy aa4\<rparr>, aa4))"

definition reset_audio_analyzer :: "audio_analyzer \<Rightarrow> audio_analyzer" where
  "reset_audio_analyzer aa =
     aa\<lparr>audio_history := [], baseline_energy := None, anomaly_count := 0,
        last_anomaly_time := None\<rparr>"

section \<open>GeminiViolationVerifier (services/gemini_verifier.py)\<close>

text \<open>The JSON object of a model response, as far as the verifier reads it: each key
  may be absent.\<close>

record analysis =
  violation_confirmed :: "bool option"
  is_genuine_violation :: "bool option"
  an_confidence :: "real option"

text \<open>What one call of \<^verbatim>\<open>model.generate_content\<close> gives: it raises (a network error,
  or any other exception inside the \<^verbatim>\<open>try\<close> block of the verifier), or it returns a text,
  on which \<^verbatim>\<open>json.loads\<close> either raises (\<open>None\<close>) or yields an object.\<close>

datatype model_call = CallRaises | ResponseText "analysis option"

record verification =
  verified :: bool
  confidence :: real

definition parse_gemini_response :: "analysis option \<Rightarrow> analysis" where
  "parse_gemini_response loaded =
     (case loaded of
        Some a \<Rightarrow> a
      | None \<Rightarrow> \<lparr>violation_confirmed = None, is_genuine_violation = Some True,
                  an_confidence = Some 0.5\<rparr>)"

text \<open>The three methods \<^verbatim>\<open>verify_eye_tracking_violation\<close>,
  \<^verbatim>\<open>verify_multiple_persons_violation\<close> and \<^verbatim>\<open>verify_object_detection_violation\<close>
  differ in the prompt only; this is their common control flow.\<close>

definition verify_violation :: "bool \<Rightarrow> model_call \<Rightarrow> verification" where
  "verify_violation enabled call =
     (if \<not> enabled then \<lparr>verified = True, confidence = 1.0\<rparr>
      else case call of
        CallRaises \<Rightarrow> \<lparr>verified = True, confidence = 1.0\<rparr>
      | ResponseText loaded \<Rightarrow>
          (let a = parse_gemini_response loaded in
           \<lparr>verified = (case violation_confirmed a of
                          Some b \<Rightarrow> b
                        | None \<Rightarrow> (case is_genuine_violation a of Some b \<Rightarrow> b | None \<Rightarrow> True)),
            confidence = (case an_confidence a of Some x \<Rightarrow> x | None \<Rightarrow> 0.5)\<rparr>))"

section \<open>ProctoringService (services/proctoring_service.py)\<close>

record violation =
  v_type :: string
  v_severity :: string
  v_ai_verified :: "bool option"
  v_ai_confidence :: "real option"

record alert =
  al_type :: string
  al_severity :: string
  al_requires_attention :: bool

record session_info =
  start_time :: string
  end_time :: "string option"
  session_status :: string
  total_violations :: int
  total_alerts :: int
  frames_processed :: int
  frames_skipped :: int

record 'f proctoring_service =
  eye_tracker :: eye_tracker
  audio_analyzer :: audio_analyzer
  frame_analyzer :: "'f frame_analyzer"
  gemini_enabled :: bool
  alert_cooldown :: real
  last_alert_times :: "string \<rightharpoonup> real"
  session_data :: "string \<rightharpoonup> session_info"
  frame_skip_mod :: int

definition init_service :: "settings \<Rightarrow> 'f proctoring_service" where
  "init_service cfg =
     \<lparr>eye_tracker = init_eye_tracker (EYE_GAZE_THRESHOLD cfg),
      audio_analyzer = init_audio_analyzer,
      frame_analyzer = init_frame_analyzer 0.95 30,
      gemini_enabled = (if GEMINI_API_KEY cfg \<noteq> [] then ENABLE_AI_VERIFICATION cfg else False),
      alert_cooldown = ALERT_COOLDOWN_SECONDS cfg,
      last_alert_times = Map.empty,
      session_data = Map.empty,
      frame_skip_mod = 1\<rparr>"

definition should_create_alert ::
  "real \<Rightarrow> string \<Rightarrow> string \<Rightarrow> 'f proctoring_service \<Rightarrow> bool \<times> 'f proctoring_service" where
  "should_create_alert current_time session_id alert_type svc =
     (let key = session_id @ ''_'' @ alert_type in
      case last_alert_times svc key of
        None \<Rightarrow> (True, svc\<lparr>last_alert_times := (last_alert_times svc)(key \<mapsto> current_time)\<rparr>)
      | Some last_time \<Rightarrow>
          (let time_since_last = current_time - last_time in
           if time_since_last \<ge> alert_cooldown svc
             then (True, svc\<lparr>last_alert_times := (last_alert_times svc)(key \<mapsto> current_time)\<rparr>)
           else (False, svc)))"

definition create_alert :: "violation \<Rightarrow> alert" where
  "create_alert v =
     \<lparr>al_type = v_type v, al_severity = v_severity v,
      al_requires_attention = (v_severity v \<in> set [''high'', ''critical''])\<rparr>"

text \<open>The result dictionary of \<^verbatim>\<open>process_frame\<close>: the keys the decision engine
  writes. (The timestamps, the descriptions and the detectors' payloads are left out.)\<close>

record results =
  r_status :: string
  r_skip_reason :: "string option"
  r_frame_processed :: bool
  r_violations :: "violation list"
  r_alerts :: "alert list"
  r_eye_tracking :: "gaze_result option"
  r_error :: bool

definition initial_results :: results where
  "initial_results =
     \<lparr>r_status = ''ok'', r_skip_reason = None, r_frame_processed = True,
      r_violations = [], r_alerts = [], r_eye_tracking = None, r_error = False\<rparr>"

text \<open>What the outside world gives during one call of \<^verbatim>\<open>process_frame\<close>: the image,
  the clock (one reading for the whole call; the code reads \<^verbatim>\<open>time.time()\<close> at each
  use, moments apart), what each detector returns (\<open>None\<close>: the call raises) and what the model
  answers to each verification request. The detectors' results are reduced to what
  the pipeline reads: the number of faces, the face mesh, the class ids of the
  detected objects.\<close>

record 'f frame_input =
  image :: 'f
  now :: real
  num_faces_in :: "int option"
  mesh_in :: "mesh option"
  objects_in :: "int list option"
  ai_multiple_persons :: model_call
  ai_eye_tracking :: model_call
  ai_object_detection :: model_call

text \<open>The block that \<^verbatim>\<open>process_frame\<close> repeats for \<^verbatim>\<open>multiple_persons\<close> (lines 132-162),
  \<^verbatim>\<open>eyes_looking_away\<close> (lines 172-205) and \<^verbatim>\<open>prohibited_object\<close> (lines 211-244):
  the cooldown check, then the verification when an alert is about to be created.\<close>

definition route_violation ::
  "settings \<Rightarrow> real \<Rightarrow> string \<Rightarrow> violation \<Rightarrow> model_call \<Rightarrow>
     results \<times> 'f proctoring_service \<Rightarrow> results \<times> 'f proctoring_service" where
  "route_violation cfg current_time session_id v call rs =
     (let (res, svc) = rs;
          (should_alert, svc1) = should_create_alert current_time session_id (v_type v) svc
      in if should_alert \<and> ENABLE_AI_VERIFICATION cfg then
           (let ai_verification = verify_violation (gemini_enabled svc1) call;
                v1 = v\<lparr>v_ai_verified := Some (verified ai_verification),
                       v_ai_confidence := Some (confidence ai_verification)\<rparr>
            in if verified ai_verification \<and>
                  confidence ai_verification \<ge> AI_VERIFICATION_CONFIDENCE_THRESHOLD cfg
                 then (res\<lparr>r_violations := r_violations res @ [v1],
                            r_alerts := r_alerts res @ [create_alert v1]\<rparr>, svc1)
               else (res, svc1))
         else if should_alert then
           (res\<lparr>r_violations := r_violations res @ [v],
                 r_alerts := r_alerts res @ [create_alert v]\<rparr>, svc1)
         else (res\<lparr>r_violations := r_violations res @ [v]\<rparr>, svc1))"

definition new_violation :: "string \<Rightarrow> string \<Rightarrow> violation" where
  "new_violation t s =
     \<lparr>v_type = t, v_severity = s, v_ai_verified = None, v_ai_confidence = None\<rparr>"

text \<open>Lines 113-124: the black-screen check inside the pipeline.\<close>

definition black_screen_stage ::
  "'f cv \<Rightarrow> 'f frame_input \<Rightarrow> string \<Rightarrow>
     results \<times> 'f proctoring_service \<Rightarrow> results \<times> 'f proctoring_service" where
  "black_screen_stage c inp session_id rs =
     (let (res, svc) = rs in
      if is_black_screen c (image inp) (frame_analyzer svc) then
        (let v = new_violation ''black_screen'' ''high'';
             res1 = res\<lparr>r_violations := r_violations res @ [v]\<rparr>;
             (should_alert, svc1) = should_create_alert (now inp) session_id ''black_screen'' svc
         in if should_alert then (res1\<lparr>r_alerts := r_alerts res1 @ [create_alert v]\<rparr>, svc1)
            else (res1, svc1))
      else rs)"

text \<open>Lines 125-162: the face count. \<open>Inl\<close> is the state at which the detector raised.\<close>

definition face_stage ::
  "settings \<Rightarrow> 'f frame_input \<Rightarrow> string \<Rightarrow> results \<times> 'f proctoring_service \<Rightarrow>
     (results \<times> 'f proctoring_service) + (int \<times> results \<times> 'f proctoring_service)" where
  "face_stage cfg inp session_id rs =
     (case num_faces_in inp of
        None \<Rightarrow> Inl rs
      | Some num_faces \<Rightarrow>
          (if num_faces > MAX_FACES_ALLOWED cfg
             then Inr (num_faces,
                       route_violation cfg (now inp) session_id
                         (new_violation ''multiple_persons'' ''high'')
                         (ai_multiple_persons inp) rs)
           else Inr (num_faces, rs)))"

text \<open>Lines 164-205: gaze tracking, only when at least one face was counted.\<close>

definition gaze_stage ::
  "settings \<Rightarrow> 'f frame_input \<Rightarrow> string \<Rightarrow> int \<Rightarrow> results \<times> 'f proctoring_service \<Rightarrow>
     (results \<times> 'f proctoring_service) + (results \<times> 'f proctoring_service)" where
  "gaze_stage cfg inp session_id num_faces rs =
     (if num_faces \<ge> 1 then
        (case mesh_in inp of
           None \<Rightarrow> Inl rs
         | Some m \<Rightarrow>
             (let (res, svc) = rs;
                  (gaze_res, et') = track_gaze (now inp) m (eye_tracker svc);
                  svc1 = svc\<lparr>eye_tracker := et'\<rparr>;
                  res1 = res\<lparr>r_eye_tracking := Some gaze_res\<rparr>
              in if g_violation gaze_res
                   then Inr (route_violation cfg (now inp) session_id
                               (new_violation ''eyes_looking_away'' ''medium'')
                               (ai_eye_tracking inp) (res1, svc1))
                 else Inr (res1, svc1)))
      else Inr rs)"

text \<open>\<^verbatim>\<open>check_prohibited_objects\<close> (ml_models/object_detector.py), on the class ids of
  the detected objects: the violation flag and the phone flag.\<close>

definition check_prohibited_objects :: "int list \<Rightarrow> bool \<times> bool" where
  "check_prohibited_objects detected_objects =
     (let has_phone = (67 \<in> set detected_objects);
          has_prohibited = (length detected_objects > 0)
      in (has_prohibited, has_phone))"

text \<open>Lines 207-244: prohibited objects.\<close>

definition object_stage ::
  "settings \<Rightarrow> 'f frame_input \<Rightarrow> string \<Rightarrow> results \<times> 'f proctoring_service \<Rightarrow>
     (results \<times> 'f proctoring_service) + (results \<times> 'f proctoring_service)" where
  "object_stage cfg inp session_id rs =
     (case objects_in inp of
        None \<Rightarrow> Inl rs
      | Some detected_objects \<Rightarrow>
          (let (obj_violation, has_phone) = check_prohibited_objects detected_objects in
           if obj_violation then
             (let severity = (if has_phone then ''critical'' else ''high'') in
              Inr (route_violation cfg (now inp) session_id
                     (new_violation ''prohibited_object'' severity)
                     (ai_object_detection inp) rs))
           else Inr rs))"

text \<open>The \<^verbatim>\<open>except\<close> clause and the final status update of \<^verbatim>\<open>process_frame\<close>.\<close>

definition on_exception ::
  "results \<times> 'f proctoring_service \<Rightarrow> results \<times> 'f proctoring_service" where
  "on_exception rs = (case rs of (res, svc) \<Rightarrow> (res\<lparr>r_status := ''error'', r_error := True\<rparr>, svc))"

definition update_status ::
  "results \<times> 'f proctoring_service \<Rightarrow> results \<times> 'f proctoring_service" where
  "update_status rs =
     (case rs of (res, svc) \<Rightarrow>
        (if r_violations res \<noteq> [] then res\<lparr>r_status := ''violations_detected''\<rparr> else res, svc))"

definition process_frame ::
  "settings \<Rightarrow> 'f cv \<Rightarrow> 'f frame_input \<Rightarrow> string \<Rightarrow> 'f proctoring_service \<Rightarrow>
     results \<times> 'f proctoring_service" where
  "process_frame cfg c inp session_id svc =
     (let ((should_process, skip_reason), fa') =
            should_process_frame c (image inp) (frame_skip_mod svc) (frame_analyzer svc);
          svc1 = svc\<lparr>frame_analyzer := fa'\<rparr>
      in if \<not> should_process then
           (initial_results\<lparr>r_status := ''skipped'', r_skip_reason := Some skip_reason,
                            r_frame_processed := False\<rparr>, svc1)
         else
           (let rs1 = black_screen_stage c inp session_id (initial_results, svc1) in
            case face_stage cfg inp session_id rs1 of
              Inl rs \<Rightarrow> on_exception rs
            | Inr (num_faces, rs2) \<Rightarrow>
                (case gaze_stage cfg inp session_id num_faces rs2 of
                   Inl rs \<Rightarrow> on_exception rs
                 | Inr rs3 \<Rightarrow>
                     (case object_stage cfg inp session_id rs3 of
                        Inl rs \<Rightarrow> on_exception rs
                      | Inr rs4 \<Rightarrow> update_status rs4))))"

text \<open>\<^verbatim>\<open>start_session\<close>; \<open>now_iso\<close> is \<^verbatim>\<open>datetime.now().isoformat()\<close>.\<close>

definition start_session ::
  "string \<Rightarrow> string \<Rightarrow> 'f proctoring_service \<Rightarrow> session_info \<times> 'f proctoring_service" where
  "start_session now_iso session_id svc =
     (let info = \<lparr>start_time = now_iso, end_time = None, session_status = ''active'',
                  total_violations = 0, total_alerts = 0,
                  frames_processed = 0, frames_skipped = 0\<rparr>;
          svc1 = svc\<lparr>session_data := (session_data svc)(session_id \<mapsto> info)\<rparr>;
          svc2 = svc1\<lparr>eye_tracker := reset_eye_tracker (eye_tracker svc1)\<rparr>;
          svc3 = svc2\<lparr>audio_analyzer := reset_audio_analyzer (audio_analyzer svc2)\<rparr>;
          svc4 = svc3\<lparr>frame_analyzer := reset_frame_analyzer (frame_analyzer svc3)\<rparr>
      in (info, svc4))"

section \<open>Auxiliary definitions for the statements\<close>

text \<open>Feeding a list of head-pose samples to \<open>calibrate\<close>, one call per sample, in order;
  the neutral baseline of a tracker; the element-wise median of a list of samples.\<close>

definition feed_samples :: "(real \<times> real \<times> real) list \<Rightarrow> eye_tracker \<Rightarrow> eye_tracker" where
  "feed_samples samples et = fold (\<lambda>(pitch, yaw, roll). calibrate pitch yaw roll) samples et"

definition neutral :: "eye_tracker \<Rightarrow> real \<times> real \<times> real" where
  "neutral et = (neutral_pitch et, neutral_yaw et, neutral_roll et)"

definition median3 :: "(real \<times> real \<times> real) list \<Rightarrow> real \<times> real \<times> real" where
  "median3 samples =
     (np_median (map (\<lambda>(p, y, r). p) samples),
      np_median (map (\<lambda>(p, y, r). y) samples),
      np_median (map (\<lambda>(p, y, r). r) samples))"

text \<open>A small image model for concrete runs: a frame is its mean gray intensity, and two
  frames are fully similar when equal and not at all otherwise.\<close>

definition toy_cv :: "real cv" where
  "toy_cv = \<lparr>gray_mean = (\<lambda>f. Some f),
             ssim_index = (\<lambda>a b. Some (if a = b then 1 else 0))\<rparr>"

text \<open>The default settings with the verification switched on and an API key set.\<close>

definition verifying_settings :: settings where
  "verifying_settings =
     default_settings\<lparr>GEMINI_API_KEY := ''key'', ENABLE_AI_VERIFICATION := True\<rparr>"

text \<open>The input of a call in which one face is counted, the face mesh gives a frontal
  head pose and no iris estimate, and no object is detected.\<close>

definition quiet_frame :: "real \<Rightarrow> real \<Rightarrow> real frame_input" where
  "quiet_frame img t =
     \<lparr>image = img, now = t, num_faces_in = Some 1,
      mesh_in = Some (Face None (Some (0, 0, 0))), objects_in = Some [],
      ai_multiple_persons = CallRaises, ai_eye_tracking = CallRaises,
      ai_object_detection = CallRaises\<rparr>"

text \<open>The admission decision for a violation of type \<open>ty\<close>, read off the state at
  the start of the call: whether the cooldown check passes, whether the verifier's
  answer meets the threshold, whether the violation is rejected by the verification
  (cooldown passed, verification enabled, answer not approved) and whether it is
  admitted as an alert.\<close>

definition cooldown_passes :: "real \<Rightarrow> string \<Rightarrow> string \<Rightarrow> 'f proctoring_service \<Rightarrow> bool" where
  "cooldown_passes t session_id ty svc = fst (should_create_alert t session_id ty svc)"

definition ai_approves :: "settings \<Rightarrow> model_call \<Rightarrow> 'f proctoring_service \<Rightarrow> bool" where
  "ai_approves cfg call svc =
     (verified (verify_violation (gemini_enabled svc) call) \<and>
      confidence (verify_violation (gemini_enabled svc) call)
        \<ge> AI_VERIFICATION_CONFIDENCE_THRESHOLD cfg)"

definition rejected_by_ai ::
  "settings \<Rightarrow> real \<Rightarrow> string \<Rightarrow> string \<Rightarrow> model_call \<Rightarrow> 'f proctoring_service \<Rightarrow> bool" where
  "rejected_by_ai cfg t session_id ty call svc =
     (cooldown_passes t session_id ty svc \<and> ENABLE_AI_VERIFICATION cfg \<and>
      \<not> ai_approves cfg call svc)"

definition admitted ::
  "settings \<Rightarrow> real \<Rightarrow> string \<Rightarrow> string \<Rightarrow> model_call \<Rightarrow> 'f proctoring_service \<Rightarrow> bool" where
  "admitted cfg t session_id ty call svc =
     (cooldown_passes t session_id ty svc \<and>
      (if ENABLE_AI_VERIFICATION cfg then ai_approves cfg call svc else True))"


text \<open>No violation and no alert of type \<^verbatim>\<open>black_screen\<close> in a result.\<close>

definition no_black :: "results \<times> 'f proctoring_service \<Rightarrow> bool" where
  "no_black rs =
     (''black_screen'' \<notin> set (map v_type (r_violations (fst rs))) \<and>
      ''black_screen'' \<notin> set (map al_type (r_alerts (fst rs))))"

text \<open>The input of a call in which two faces are counted and the model confirms the
  violation with confidence 0.4; a new service with the verification enabled, and
  that service after one such call at time 0.\<close>

definition crowded_frame :: "real \<Rightarrow> real \<Rightarrow> real frame_input" where
  "crowded_frame img t =
     \<lparr>image = img, now = t, num_faces_in = Some 2,
      mesh_in = Some NoFace, objects_in = Some [],
      ai_multiple_persons =
        ResponseText (Some \<lparr>violation_confirmed = Some True, is_genuine_violation = None,
                             an_confidence = Some 0.4\<rparr>),
      ai_eye_tracking = CallRaises, ai_object_detection = CallRaises\<rparr>"

definition fresh_verifying_service :: "real proctoring_service" where
  "fresh_verifying_service = init_service verifying_settings"


text \<open>The violation types that the service passes to \<^verbatim>\<open>_should_create_alert\<close>.\<close>

definition alert_types :: "string list" where
  "alert_types = [''black_screen'', ''multiple_persons'', ''eyes_looking_away'',
                  ''prohibited_object'', ''audio_anomaly'']"


section \<open>Properties\<close>

subsection \<open>The stages of the frame pipeline\<close>

lemma sca_keeps:
  "eye_tracker (snd (should_create_alert t sid ty svc)) = eye_tracker svc"
  "audio_analyzer (snd (should_create_alert t sid ty svc)) = audio_analyzer svc"
  "frame_analyzer (snd (should_create_alert t sid ty svc)) = frame_analyzer svc"
  "gemini_enabled (snd (should_create_alert t sid ty svc)) = gemini_enabled svc"
  "alert_cooldown (snd (should_create_alert t sid ty svc)) = alert_cooldown svc"
  "session_data (snd (should_create_alert t sid ty svc)) = session_data svc"
  "frame_skip_mod (snd (should_create_alert t sid ty svc)) = frame_skip_mod svc"
  by (simp_all add: should_create_alert_def Let_def split: option.splits)



lemma rv_types:
  "map v_type (r_violations (fst (route_violation cfg t sid v call rs))) =
     map v_type (r_violations (fst rs)) @
       (if rejected_by_ai cfg t sid (v_type v) call (snd rs) then [] else [v_type v])"
  by (simp add: route_violation_def rejected_by_ai_def cooldown_passes_def ai_approves_def
      sca_keeps Let_def split_def)

lemma rv_alerts:
  "map al_type (r_alerts (fst (route_violation cfg t sid v call rs))) =
     map al_type (r_alerts (fst rs)) @
       (if admitted cfg t sid (v_type v) call (snd rs) then [v_type v] else [])"
  by (simp add: route_violation_def admitted_def cooldown_passes_def ai_approves_def
      sca_keeps create_alert_def Let_def split_def)



lemma rv_eye_tracking:
  "r_eye_tracking (fst (route_violation cfg t sid v call rs)) = r_eye_tracking (fst rs)"
  by (simp add: route_violation_def Let_def split_def)


lemma spf_black_threshold:
  "black_threshold (snd (should_process_frame c f k fa)) = black_threshold fa"
  by (simp add: should_process_frame_def is_duplicate_frame_def Let_def split_def
      split: option.splits)

lemma spf_admitted_not_black:
  "fst (fst (should_process_frame c f k fa)) \<Longrightarrow>
   \<not> is_black_screen c f (snd (should_process_frame c f k fa))"
proof -
  assume a: "fst (fst (should_process_frame c f k fa))"
  then have "\<not> is_black_screen c f fa"
    by (auto simp: should_process_frame_def)
  then show ?thesis
    by (simp add: is_black_screen_def spf_black_threshold split: option.splits)
qed

lemma black_stage_dead:
  "\<not> is_black_screen c (image inp) (frame_analyzer (snd rs)) \<Longrightarrow>
   black_screen_stage c inp sid rs = rs"
  by (simp add: black_screen_stage_def split_def)







text \<open>The definitions that a concrete run unfolds.\<close>

lemmas run_defs =
  process_frame_def should_process_frame_def is_black_screen_def is_duplicate_frame_def
  calculate_ssim_def black_screen_stage_def face_stage_def gaze_stage_def object_stage_def
  check_prohibited_objects_def update_status_def route_violation_def should_create_alert_def
  verify_violation_def parse_gemini_response_def create_alert_def new_violation_def
  track_gaze_def init_service_def init_eye_tracker_def init_frame_analyzer_def
  init_audio_analyzer_def default_settings_def verifying_settings_def initial_results_def
  toy_cv_def quiet_frame_def crowded_frame_def fresh_verifying_service_def Let_def








subsection \<open>Cooldown\<close>

text \<open>The table is keyed by the string \<open>session_id @ ''_'' @ alert_type\<close>. For the five
  violation types of the service, two different pairs never share a key.\<close>

lemma alert_key_injective:
  assumes "ty \<in> set alert_types" and "ty' \<in> set alert_types"
    and "sid @ ''_'' @ ty = sid' @ ''_'' @ ty'"
  shows "sid = sid' \<and> ty = ty'"
proof -
  from assms(3) have "rev (sid @ ''_'' @ ty) = rev (sid' @ ''_'' @ ty')"
    by simp
  with assms(1,2) show ?thesis
    by (auto simp: alert_types_def)
qed







subsection \<open>Calibration\<close>

lemma feed_samples_snoc:
  "feed_samples (xs @ [(p, y, r)]) et = calibrate p y r (feed_samples xs et)"
  by (simp add: feed_samples_def)

lemma feed_samples_invariant:
  assumes "calibration_frames et = []"
  shows "calibration_frames (feed_samples xs et) = take calibration_frame_count xs \<and>
         is_calibrated (feed_samples xs et) =
           (is_calibrated et \<or> length xs \<ge> calibration_frame_count) \<and>
         neutral (feed_samples xs et) =
           (if length xs \<ge> calibration_frame_count
            then median3 (take calibration_frame_count xs) else neutral et)"
proof (induction xs rule: rev_induct)
  case Nil
  show ?case using assms by (simp add: feed_samples_def calibration_frame_count_def)
next
  case (snoc x xs)
  obtain p y r where x: "x = (p, y, r)" by (cases x) auto
  show ?case
  proof (cases "length xs < calibration_frame_count")
    case True
    then have tk: "take calibration_frame_count xs = xs" by simp
    show ?thesis using snoc True tk
      by (auto simp: x feed_samples_snoc calibrate_def Let_def neutral_def median3_def)
  next
    case False
    then show ?thesis using snoc
      by (auto simp: x feed_samples_snoc calibrate_def Let_def neutral_def)
  qed
qed

lemma sort_replicate: "sort (replicate n (x::real)) = replicate n x"
  by (simp add: sorted_replicate sort_key_id_if_sorted)

lemma np_median_replicate:
  assumes "n > 0"
  shows "np_median (replicate n x) = x"
proof -
  have a: "n div 2 < n" and b: "n div 2 - 1 < n" using assms by auto
  show ?thesis
    using a b by (simp add: np_median_def Let_def sort_replicate)
qed

lemma median3_replicate:
  "n > 0 \<Longrightarrow> median3 (replicate n (p, y, r)) = (p, y, r)"
  by (simp add: median3_def np_median_replicate)

text \<open>Claim C3. Starting from a tracker whose calibration buffer is empty and whose
  flag is off (a new or a reset tracker): fewer than 10 samples leave the flag off; the
  10th sample turns it on and sets the baseline to the element-wise median of the 10
  samples; whatever is fed later, the flag stays on and the baseline and the buffer stay
  those of the first 10 samples; 10 identical samples \<open>(p, y, r)\<close> give the baseline
  \<open>(p, y, r)\<close>; \<open>reset\<close> turns the flag off and empties the buffer.\<close>

theorem calibration_completes_once:
  assumes "calibration_frames et = []" and "\<not> is_calibrated et"
  shows
    "(length samples < 10 \<longrightarrow> \<not> is_calibrated (feed_samples samples et)) \<and>
     (length samples = 10 \<longrightarrow>
        is_calibrated (feed_samples samples et) \<and>
        neutral (feed_samples samples et) = median3 samples) \<and>
     (length samples \<ge> 10 \<longrightarrow>
        is_calibrated (feed_samples (samples @ later) et) \<and>
        neutral (feed_samples (samples @ later) et) = median3 (take 10 samples) \<and>
        calibration_frames (feed_samples (samples @ later) et) = take 10 samples) \<and>
     neutral (feed_samples (replicate 10 (p, y, r)) et) = (p, y, r) \<and>
     is_calibrated (feed_samples (replicate 10 (p, y, r)) et) \<and>
     \<not> is_calibrated (reset_eye_tracker (feed_samples samples et)) \<and>
     calibration_frames (reset_eye_tracker (feed_samples samples et)) = []"
proof -
  note inv = feed_samples_invariant [OF assms(1), unfolded calibration_frame_count_def]
  have 1: "length samples < 10 \<longrightarrow> \<not> is_calibrated (feed_samples samples et)"
    using inv [of samples] assms(2) by simp
  have 2: "length samples = 10 \<longrightarrow>
        is_calibrated (feed_samples samples et) \<and>
        neutral (feed_samples samples et) = median3 samples"
    using inv [of samples] by simp
  have 3: "length samples \<ge> 10 \<longrightarrow>
        is_calibrated (feed_samples (samples @ later) et) \<and>
        neutral (feed_samples (samples @ later) et) = median3 (take 10 samples) \<and>
        calibration_frames (feed_samples (samples @ later) et) = take 10 samples"
    using inv [of "samples @ later"] by simp
  have 4: "neutral (feed_samples (replicate 10 (p, y, r)) et) = (p, y, r) \<and>
     is_calibrated (feed_samples (replicate 10 (p, y, r)) et)"
    using inv [of "replicate 10 (p, y, r)"] median3_replicate [of 10 p y r] by simp
  have 5: "\<not> is_calibrated (reset_eye_tracker (feed_samples samples et)) \<and>
     calibration_frames (reset_eye_tracker (feed_samples samples et)) = []"
    by (simp add: reset_eye_tracker_def)
  from 1 2 3 4 5 show ?thesis by blast
qed

theorem calibration_completes_once_witness:
  "calibration_frames (init_eye_tracker 2) = [] \<and> \<not> is_calibrated (init_eye_tracker 2) \<and>
   \<not> is_calibrated (feed_samples (replicate 9 (1, 2, 3)) (init_eye_tracker 2)) \<and>
   is_calibrated (feed_samples (replicate 10 (1, 2, 3)) (init_eye_tracker 2)) \<and>
   neutral (feed_samples (replicate 10 (1, 2, 3) @ [(40, 50, 60)]) (init_eye_tracker 2)) = (1, 2, 3)"
proof -
  have a: "calibration_frames (init_eye_tracker 2) = []"
    and b: "\<not> is_calibrated (init_eye_tracker 2)"
    by (simp_all add: init_eye_tracker_def)
  have m: "median3 (replicate 10 (1, 2, 3)) = (1, 2, 3)"
    by (rule median3_replicate) simp
  have "\<not> is_calibrated (feed_samples (replicate 9 (1, 2, 3)) (init_eye_tracker 2))"
    using calibration_completes_once [OF a b, of "replicate 9 (1, 2, 3)"] by simp
  moreover have "is_calibrated (feed_samples (replicate 10 (1, 2, 3)) (init_eye_tracker 2))"
    using calibration_completes_once [OF a b, of "replicate 10 (1, 2, 3)"] by simp
  moreover have "neutral (feed_samples (replicate 10 (1, 2, 3) @ [(40, 50, 60)]) (init_eye_tracker 2)) = (1, 2, 3)"
    using calibration_completes_once [OF a b, of "replicate 10 (1, 2, 3)" "[(40, 50, 60)]"] m by simp
  ultimately show ?thesis using a b by simp
qed

subsection \<open>Head-pose decision and fusion\<close>

lemma fuse_estimates_pose:
  "fuse_estimates iris_res (Some (pitch, yaw, roll)) et =
     (let et1 = (if is_calibrated et then et else calibrate pitch yaw roll et);
          head = is_looking_away pitch yaw roll et1
      in ((case iris_res of
             None \<Rightarrow> (fst head, snd head, pitch, yaw, roll)
           | Some ir \<Rightarrow> if fst head then (fst head, snd head, pitch, yaw, roll)
                        else (iris_looking_away ir, iris_direction ir, pitch, yaw, roll)), et1))"
  by (simp add: fuse_estimates_def Let_def split_def split: option.splits)

lemma track_gaze_flag_direction:
  "g_looking_away (fst (track_gaze t (Face iris_res pose) et)) =
     fst (fst (fuse_estimates iris_res pose et)) \<and>
   g_gaze_direction (fst (track_gaze t (Face iris_res pose) et)) =
     fst (snd (fst (fuse_estimates iris_res pose et)))"
  by (simp add: track_gaze_def Let_def split_def)

text \<open>Without a head pose the iris estimate decides alone, and the defaults
  (not looking away, center) stand when both estimates are missing.\<close>

lemma fusion_without_pose:
  "g_looking_away (fst (track_gaze t (Face iris_res None) et)) =
     (case iris_res of None \<Rightarrow> False | Some ir \<Rightarrow> iris_looking_away ir) \<and>
   g_gaze_direction (fst (track_gaze t (Face iris_res None) et)) =
     (case iris_res of None \<Rightarrow> ''center'' | Some ir \<Rightarrow> iris_direction ir)"
  by (simp add: track_gaze_flag_direction fuse_estimates_def split: option.splits)


text \<open>Claim C4. For a frame with a face and a head pose: with a calibrated tracker,
  the head-pose decision compares the deviation from the neutral baseline with the
  rotation threshold of 25 degrees: a yaw deviation beyond it reports looking away to
  the left or right; otherwise a pitch deviation beyond it reports looking away up or
  down; otherwise the result is center. An uncalibrated tracker decides as a calibrated
  one with a zero baseline. In \<^verbatim>\<open>track_gaze\<close> the flag and the direction are those of the
  head-pose decision (taken after this frame's calibration step) when there is no iris
  estimate or when the head-pose decision reports looking away, and those of the iris
  estimate otherwise. For a frame with a face and no head pose there is no head-pose
  decision: the iris estimate stands, or the defaults when it is missing too.\<close>

theorem head_pose_decision_and_fusion:
  "(is_calibrated et \<and> \<bar>yaw - neutral_yaw et\<bar> > 25 \<longrightarrow>
      is_looking_away pitch yaw roll et =
        (True, if yaw - neutral_yaw et < 0 then ''left'' else ''right'')) \<and>
   (is_calibrated et \<and> \<bar>yaw - neutral_yaw et\<bar> \<le> 25 \<and> \<bar>pitch - neutral_pitch et\<bar> > 25 \<longrightarrow>
      is_looking_away pitch yaw roll et =
        (True, if pitch - neutral_pitch et > 0 then ''down'' else ''up'')) \<and>
   (is_calibrated et \<and> \<bar>yaw - neutral_yaw et\<bar> \<le> 25 \<and> \<bar>pitch - neutral_pitch et\<bar> \<le> 25 \<longrightarrow>
      is_looking_away pitch yaw roll et = (False, ''center'')) \<and>
   (\<not> is_calibrated et \<longrightarrow>
      is_looking_away pitch yaw roll et =
        is_looking_away pitch yaw roll
          (et\<lparr>is_calibrated := True, neutral_pitch := 0, neutral_yaw := 0\<rparr>)) \<and>
   (let et1 = (if is_calibrated et then et else calibrate pitch yaw roll et);
        head = is_looking_away pitch yaw roll et1;
        res = fst (track_gaze t (Face iris_res (Some (pitch, yaw, roll))) et)
    in (g_looking_away res, g_gaze_direction res) =
         (case iris_res of
            None \<Rightarrow> head
          | Some ir \<Rightarrow> if fst head then head else (iris_looking_away ir, iris_direction ir))) \<and>
   (let res = fst (track_gaze t (Face iris_res None) et)
    in (g_looking_away res, g_gaze_direction res) =
         (case iris_res of
            None \<Rightarrow> (False, ''center'')
          | Some ir \<Rightarrow> (iris_looking_away ir, iris_direction ir)))"
proof -
  have 1: "is_calibrated et \<and> \<bar>yaw - neutral_yaw et\<bar> > 25 \<longrightarrow>
      is_looking_away pitch yaw roll et =
        (True, if yaw - neutral_yaw et < 0 then ''left'' else ''right'')"
    by (simp add: is_looking_away_def Let_def HEAD_ROTATION_THRESHOLD_def)
  have 2: "is_calibrated et \<and> \<bar>yaw - neutral_yaw et\<bar> \<le> 25 \<and> \<bar>pitch - neutral_pitch et\<bar> > 25 \<longrightarrow>
      is_looking_away pitch yaw roll et =
        (True, if pitch - neutral_pitch et > 0 then ''down'' else ''up'')"
    by (simp add: is_looking_away_def Let_def HEAD_ROTATION_THRESHOLD_def)
  have 3: "is_calibrated et \<and> \<bar>yaw - neutral_yaw et\<bar> \<le> 25 \<and> \<bar>pitch - neutral_pitch et\<bar> \<le> 25 \<longrightarrow>
      is_looking_away pitch yaw roll et = (False, ''center'')"
    by (simp add: is_looking_away_def Let_def HEAD_ROTATION_THRESHOLD_def)
  have 4: "\<not> is_calibrated et \<longrightarrow>
      is_looking_away pitch yaw roll et =
        is_looking_away pitch yaw roll
          (et\<lparr>is_calibrated := True, neutral_pitch := 0, neutral_yaw := 0\<rparr>)"
    by (simp add: is_looking_away_def Let_def)
  have 5: "(let et1 = (if is_calibrated et then et else calibrate pitch yaw roll et);
        head = is_looking_away pitch yaw roll et1;
        res = fst (track_gaze t (Face iris_res (Some (pitch, yaw, roll))) et)
    in (g_looking_away res, g_gaze_direction res) =
         (case iris_res of
            None \<Rightarrow> head
          | Some ir \<Rightarrow> if fst head then head else (iris_looking_away ir, iris_direction ir)))"
    by (auto simp add: track_gaze_flag_direction fuse_estimates_pose Let_def prod_eq_iff
          split: option.splits)
  have 6: "(let res = fst (track_gaze t (Face iris_res None) et)
    in (g_looking_away res, g_gaze_direction res) =
         (case iris_res of
            None \<Rightarrow> (False, ''center'')
          | Some ir \<Rightarrow> (iris_looking_away ir, iris_direction ir)))"
    by (simp add: fusion_without_pose Let_def split: option.splits)
  from 1 2 3 4 5 6 show ?thesis by blast
qed

theorem head_pose_decision_and_fusion_witness:
  "is_calibrated ((init_eye_tracker 2)\<lparr>is_calibrated := True, neutral_yaw := 5\<rparr>) \<and>
   \<bar>35 - neutral_yaw ((init_eye_tracker 2)\<lparr>is_calibrated := True, neutral_yaw := 5\<rparr>)\<bar> > 25 \<and>
   is_looking_away 0 35 0 ((init_eye_tracker 2)\<lparr>is_calibrated := True, neutral_yaw := 5\<rparr>) =
     (True, ''right'') \<and>
   (let res = fst (track_gaze 1
                (Face (Some \<lparr>iris_x_ratio = 1, iris_y_ratio = 1, iris_direction = ''center'',
                             iris_looking_away = False\<rparr>) (Some (0, 35, 0)))
                ((init_eye_tracker 2)\<lparr>is_calibrated := True, neutral_yaw := 5\<rparr>))
    in (g_looking_away res, g_gaze_direction res) = (True, ''right''))"
  using head_pose_decision_and_fusion
    [of "(init_eye_tracker 2)\<lparr>is_calibrated := True, neutral_yaw := 5\<rparr>" 35 0 0 1
        "Some \<lparr>iris_x_ratio = 1, iris_y_ratio = 1, iris_direction = ''center'',
               iris_looking_away = False\<rparr>"]
  by (auto simp add: init_eye_tracker_def Let_def)

subsection \<open>Tracking without a face\<close>

text \<open>Claim C8. Without face landmarks \<^verbatim>\<open>track_gaze\<close> returns at once: the tracker is
  unchanged, and the result has \<^verbatim>\<open>face_detected = False\<close>, \<^verbatim>\<open>looking_away = False\<close>,
  direction \<^verbatim>\<open>unknown\<close>, duration 0 and \<^verbatim>\<open>violation = False\<close>. The key
  \<^verbatim>\<open>total_away_time\<close>, which the result for a frame with a face always has, is absent.\<close>

theorem no_face_result:
  "track_gaze t NoFace et =
     (\<lparr>g_face_detected = False, g_looking_away = False, g_gaze_direction = ''unknown'',
       g_pitch = 0, g_yaw = 0, g_roll = 0, g_duration = 0, g_violation = False,
       g_alert_type = None, g_total_away_time = None\<rparr>, et) \<and>
   g_total_away_time (fst (track_gaze t NoFace et)) = None \<and>
   (\<exists>x. g_total_away_time (fst (track_gaze t (Face iris_res pose) et)) = Some x)"
  by (simp add: track_gaze_def Let_def split_def)

subsection \<open>The processed-frame counter\<close>

text \<open>Claim C5 says that every call of \<^verbatim>\<open>should_process_frame\<close> adds one to the frame
  counter. The counter is incremented inside \<^verbatim>\<open>is_duplicate_frame\<close> only, after the
  early returns: a black frame (mean intensity 10 against the threshold 30) leaves it
  at 0; and with \<^verbatim>\<open>skip_mod = 3\<close>, after a first admitted frame the counter is 1, every
  later frame is rejected as \<^verbatim>\<open>frame_skipped\<close> and the counter stays at 1.\<close>

theorem frame_counter_not_incremented:
  "should_process_frame toy_cv 10 1 (init_frame_analyzer 0.95 30) =
     ((False, ''black_screen''), init_frame_analyzer 0.95 30) \<and>
   frame_count (snd (should_process_frame toy_cv 10 1 (init_frame_analyzer 0.95 30))) = 0 \<and>
   (let (v1, fa1) = should_process_frame toy_cv 100 3 (init_frame_analyzer 0.95 30);
        (v2, fa2) = should_process_frame toy_cv 200 3 fa1;
        (v3, fa3) = should_process_frame toy_cv 150 3 fa2
    in v1 = (True, ''ok'') \<and> frame_count fa1 = 1 \<and>
       v2 = (False, ''frame_skipped'') \<and> frame_count fa2 = 1 \<and>
       v3 = (False, ''frame_skipped'') \<and> frame_count fa3 = 1)"
  by (simp add: should_process_frame_def is_black_screen_def is_duplicate_frame_def
      init_frame_analyzer_def toy_cv_def Let_def)

text \<open>In general the counter moves only on the calls that reach the duplicate check.\<close>

lemma frame_counter_effect:
  "frame_count (snd (should_process_frame c f k fa)) =
     (if is_black_screen c f fa \<or> (k > 1 \<and> frame_count fa mod k \<noteq> 0)
      then frame_count fa else frame_count fa + 1)"
  by (simp add: should_process_frame_def is_duplicate_frame_def Let_def split_def
      split: option.splits)

subsection \<open>The audio anomaly counter\<close>

text \<open>Claim C6 says that every anomalous chunk, \<^verbatim>\<open>sudden_change\<close> included, increments the
  anomaly counter. From a new analyzer, a silent chunk (energy 0) followed by a chunk of
  energy 0.2 is a \<^verbatim>\<open>sudden_change\<close> anomaly with speech present, and the counter is
  still 0 after it: only the \<^verbatim>\<open>high_energy_spike\<close> branch increments.\<close>

theorem sudden_change_not_counted:
  "(let (r1, aa1) = analyze_audio 0 0 0 init_audio_analyzer;
        (r2, aa2) = analyze_audio 1 0.2 0 aa1
    in \<not> a_anomaly_detected r1 \<and> anomaly_count aa1 = 0 \<and>
       a_anomaly_detected r2 \<and> a_anomaly_type r2 = Some ''sudden_change'' \<and>
       a_has_speech r2 \<and> anomaly_count aa2 = 0 \<and> a_anomaly_count r2 = 0)"
  by (simp add: analyze_audio_def init_audio_analyzer_def deque_append_def Let_def)

text \<open>The rest of the claim holds: the violation flag is the conjunction of
  "counter above 3" and "this chunk is anomalous", and the counter never decreases.\<close>

lemma audio_violation_flag:
  "a_violation (fst (analyze_audio t e z aa)) =
     (anomaly_count (snd (analyze_audio t e z aa)) > 3 \<and>
      a_anomaly_detected (fst (analyze_audio t e z aa)))"
  by (simp add: analyze_audio_def Let_def)

lemma anomaly_count_monotone:
  "anomaly_count aa \<le> anomaly_count (snd (analyze_audio t e z aa)) \<and>
   anomaly_count (snd (analyze_audio t e z aa)) \<le> anomaly_count aa + 1"
  by (simp add: analyze_audio_def Let_def)

lemma anomaly_count_spike_only:
  "anomaly_count (snd (analyze_audio t e z aa)) =
     (if a_anomaly_type (fst (analyze_audio t e z aa)) = Some ''high_energy_spike'' \<or>
         (a_anomaly_type (fst (analyze_audio t e z aa)) = Some ''sudden_change'' \<and>
          (case a_baseline_energy (fst (analyze_audio t e z aa)) of
             Some b \<Rightarrow> b \<noteq> 0 \<and> e > b * 2.5 | None \<Rightarrow> False))
      then anomaly_count aa + 1 else anomaly_count aa)"
  by (simp add: analyze_audio_def Let_def split: option.splits)

subsection \<open>Verification failures\<close>

text \<open>When the model call raises, the verifier answers "confirmed, confidence 1.0".\<close>

lemma verify_call_raises:
  "verify_violation enabled CallRaises = \<lparr>verified = True, confidence = 1.0\<rparr>"
  by (simp add: verify_violation_def)

text \<open>Claim C7 says that a response that cannot be parsed is also treated as confirmed
  with confidence 1.0, so that the violation still produces an alert. For such a
  response \<^verbatim>\<open>_parse_gemini_response\<close> returns its default with confidence 0.5, the
  verifier answers "confirmed, confidence 0.5", and with the configured threshold 0.7 an
  otherwise eligible violation produces no alert and is not recorded; the same
  violation with a raising model call produces the alert.\<close>

theorem parse_failure_not_fail_open:
  "verify_violation True (ResponseText None) = \<lparr>verified = True, confidence = 0.5\<rparr> \<and>
   gemini_enabled (init_service verifying_settings :: unit proctoring_service) \<and>
   (let (res, svc) = route_violation verifying_settings 0 ''s1''
                       (new_violation ''eyes_looking_away'' ''medium'') (ResponseText None)
                       (initial_results, init_service verifying_settings :: unit proctoring_service)
    in r_alerts res = [] \<and> r_violations res = []) \<and>
   (let (res, svc) = route_violation verifying_settings 0 ''s1''
                       (new_violation ''eyes_looking_away'' ''medium'') CallRaises
                       (initial_results, init_service verifying_settings :: unit proctoring_service)
    in map al_type (r_alerts res) = [''eyes_looking_away''])"
  by (simp add: verify_violation_def parse_gemini_response_def route_violation_def
      should_create_alert_def init_service_def verifying_settings_def default_settings_def
      initial_results_def new_violation_def create_alert_def Let_def)

subsection \<open>Starting a session\<close>

text \<open>Claim C9 says that starting session \<open>s2\<close> leaves the gaze, frame-gate and audio
  state of another session \<open>s1\<close> unchanged. The service has one eye tracker, one frame
  analyzer and one audio analyzer for all sessions: after session \<open>s1\<close> has processed
  one frame (frame counter 1, a retained frame, one calibration sample), starting
  \<open>s2\<close> sets the counter to 0, drops the retained frame and empties the calibration
  buffer that the frames of \<open>s1\<close> go on using.\<close>

theorem start_session_resets_shared_trackers:
  "(let svc1 = snd (start_session ''t0'' ''s1'' (init_service default_settings));
        svc2 = snd (process_frame default_settings toy_cv (quiet_frame 100 0) ''s1'' svc1);
        svc3 = snd (start_session ''t1'' ''s2'' svc2)
    in ''s1'' \<noteq> ''s2'' \<and>
       frame_count (frame_analyzer svc2) = 1 \<and> frame_count (frame_analyzer svc3) = 0 \<and>
       previous_frame (frame_analyzer svc2) = Some 100 \<and>
       previous_frame (frame_analyzer svc3) = None \<and>
       calibration_frames (eye_tracker svc2) = [(0, 0, 0)] \<and>
       calibration_frames (eye_tracker svc3) = [])"
  by (simp add: start_session_def process_frame_def should_process_frame_def
      is_black_screen_def is_duplicate_frame_def black_screen_stage_def face_stage_def
      gaze_stage_def object_stage_def check_prohibited_objects_def update_status_def
      track_gaze_def fuse_estimates_def track_duration_def calibrate_def
      calibration_frame_count_def is_looking_away_def HEAD_ROTATION_THRESHOLD_def
      reset_eye_tracker_def reset_audio_analyzer_def reset_frame_analyzer_def
      init_service_def init_eye_tracker_def init_frame_analyzer_def init_audio_analyzer_def
      default_settings_def initial_results_def toy_cv_def quiet_frame_def Let_def)

text \<open>Claim C9, amended. For distinct sessions \<open>s1\<close> and \<open>s2\<close>, starting \<open>s2\<close> leaves
  the session record of \<open>s1\<close> and every cooldown entry unchanged; it resets the shared
  eye tracker (calibration buffer and flag, away-duration state), the shared frame
  analyzer (retained frame, frame counter) and the shared audio analyzer (history,
  baseline, anomaly counter).\<close>

theorem start_session_other_session:
  "s1 \<noteq> s2 \<longrightarrow>
   (let svc' = snd (start_session now_iso s2 svc)
    in session_data svc' s1 = session_data svc s1 \<and>
       last_alert_times svc' = last_alert_times svc \<and>
       alert_cooldown svc' = alert_cooldown svc \<and>
       calibration_frames (eye_tracker svc') = [] \<and>
       \<not> is_calibrated (eye_tracker svc') \<and>
       looking_away_start (eye_tracker svc') = None \<and>
       total_looking_away_time (eye_tracker svc') = 0 \<and>
       previous_frame (frame_analyzer svc') = None \<and>
       frame_count (frame_analyzer svc') = 0 \<and>
       baseline_energy (audio_analyzer svc') = None \<and>
       anomaly_count (audio_analyzer svc') = 0 \<and>
       audio_history (audio_analyzer svc') = [])"
  by (simp add: start_session_def reset_eye_tracker_def reset_audio_analyzer_def
      reset_frame_analyzer_def Let_def)

theorem start_session_other_session_witness:
  "''s1'' \<noteq> ''s2'' \<and>
   session_data (snd (start_session ''t1'' ''s2''
       (snd (start_session ''t0'' ''s1'' (init_service default_settings :: real proctoring_service)))))
     ''s1'' =
   Some \<lparr>start_time = ''t0'', end_time = None, session_status = ''active'',
         total_violations = 0, total_alerts = 0, frames_processed = 0, frames_skipped = 0\<rparr>"
  using start_session_other_session [of "''s1''" "''s2''" "''t1''"
      "snd (start_session ''t0'' ''s1'' (init_service default_settings :: real proctoring_service))"]
  by (simp add: start_session_def Let_def)


subsection \<open>Recorded violations and alerts\<close>











subsection \<open>Black frames\<close>

lemma nb_route:
  "v_type v \<noteq> ''black_screen'' \<Longrightarrow> no_black rs \<Longrightarrow>
   no_black (route_violation cfg t sid v call rs)"
  unfolding no_black_def rv_types rv_alerts by auto

lemma nb_face:
  assumes "no_black rs"
  shows "face_stage cfg inp sid rs = Inl rs' \<Longrightarrow> no_black rs'"
    and "face_stage cfg inp sid rs = Inr (k, rs') \<Longrightarrow> no_black rs'"
  using assms
  by (auto simp: face_stage_def new_violation_def intro!: nb_route
      split: option.splits if_splits)

lemma nb_eye_update:
  "no_black (res, svc) \<Longrightarrow> no_black (res\<lparr>r_eye_tracking := x\<rparr>, svc')"
  by (simp add: no_black_def)

lemma nb_gaze:
  assumes "no_black rs"
  shows "gaze_stage cfg inp sid k rs = Inl rs' \<Longrightarrow> no_black rs'"
    and "gaze_stage cfg inp sid k rs = Inr rs' \<Longrightarrow> no_black rs'"
proof -
  obtain res svc where rs: "rs = (res, svc)" by (cases rs)
  have nb: "no_black (res, svc)" using assms rs by simp
  show "gaze_stage cfg inp sid k rs = Inl rs' \<Longrightarrow> no_black rs'"
    using nb by (auto simp: gaze_stage_def rs Let_def split_def split: option.splits if_splits)
  show "gaze_stage cfg inp sid k rs = Inr rs' \<Longrightarrow> no_black rs'"
    using nb
    by (auto simp: gaze_stage_def rs Let_def split_def new_violation_def
        intro!: nb_route nb_eye_update split: option.splits if_splits)
qed

lemma nb_object:
  assumes "no_black rs"
  shows "object_stage cfg inp sid rs = Inl rs' \<Longrightarrow> no_black rs'"
    and "object_stage cfg inp sid rs = Inr rs' \<Longrightarrow> no_black rs'"
  using assms
  by (auto simp: object_stage_def new_violation_def Let_def split_def intro!: nb_route
      split: option.splits if_splits)

lemma nb_finish:
  "no_black rs \<Longrightarrow> no_black (on_exception rs)"
  "no_black rs \<Longrightarrow> no_black (update_status rs)"
  by (simp_all add: no_black_def on_exception_def update_status_def split_def)

lemma nb_process_frame: "no_black (process_frame cfg c inp sid svc)"
proof (cases "fst (fst (should_process_frame c (image inp) (frame_skip_mod svc) (frame_analyzer svc)))")
  case False
  then show ?thesis
    by (simp add: process_frame_def split_def Let_def no_black_def initial_results_def)
next
  case True
  define svc1 where "svc1 = svc\<lparr>frame_analyzer :=
             snd (should_process_frame c (image inp) (frame_skip_mod svc) (frame_analyzer svc))\<rparr>"
  have "\<not> is_black_screen c (image inp) (frame_analyzer svc1)"
    using spf_admitted_not_black [OF True] by (simp add: svc1_def)
  then have b: "black_screen_stage c inp sid (initial_results, svc1) = (initial_results, svc1)"
    by (simp add: black_stage_dead)
  have n0: "no_black (initial_results, svc1)"
    by (simp add: no_black_def initial_results_def)
  have pf: "process_frame cfg c inp sid svc =
        (case face_stage cfg inp sid (initial_results, svc1) of
              Inl rs \<Rightarrow> on_exception rs
            | Inr (num_faces, rs2) \<Rightarrow>
                (case gaze_stage cfg inp sid num_faces rs2 of
                   Inl rs \<Rightarrow> on_exception rs
                 | Inr rs3 \<Rightarrow>
                     (case object_stage cfg inp sid rs3 of
                        Inl rs \<Rightarrow> on_exception rs
                      | Inr rs4 \<Rightarrow> update_status rs4)))"
    using True b by (simp add: process_frame_def split_def Let_def svc1_def [symmetric])
  show ?thesis
    unfolding pf using n0
    by (auto split: sum.splits intro!: nb_finish) (meson nb_face nb_gaze nb_object)+
qed

text \<open>Claim C10. A frame on which the black-screen predicate holds makes
  \<^verbatim>\<open>process_frame\<close> return at once with status \<^verbatim>\<open>skipped\<close> and skip reason
  \<^verbatim>\<open>black_screen\<close>, no violation, no alert and an unchanged service; on an admitted
  frame the black-screen branch of the pipeline does nothing; and no result of
  \<^verbatim>\<open>process_frame\<close> has a violation or an alert of type \<^verbatim>\<open>black_screen\<close>.\<close>

theorem black_frame_is_skipped:
  "(is_black_screen c (image inp) (frame_analyzer svc) \<longrightarrow>
      process_frame cfg c inp sid svc =
        (initial_results\<lparr>r_status := ''skipped'', r_skip_reason := Some ''black_screen'',
                         r_frame_processed := False\<rparr>, svc)) \<and>
   (fst (fst (should_process_frame c (image inp) (frame_skip_mod svc) (frame_analyzer svc))) \<longrightarrow>
      black_screen_stage c inp sid
        (res, svc\<lparr>frame_analyzer :=
                snd (should_process_frame c (image inp) (frame_skip_mod svc) (frame_analyzer svc))\<rparr>) =
        (res, svc\<lparr>frame_analyzer :=
                snd (should_process_frame c (image inp) (frame_skip_mod svc) (frame_analyzer svc))\<rparr>)) \<and>
   ''black_screen'' \<notin> set (map v_type (r_violations (fst (process_frame cfg c inp sid svc)))) \<and>
   ''black_screen'' \<notin> set (map al_type (r_alerts (fst (process_frame cfg c inp sid svc))))"
proof -
  have 1: "is_black_screen c (image inp) (frame_analyzer svc) \<longrightarrow>
      process_frame cfg c inp sid svc =
        (initial_results\<lparr>r_status := ''skipped'', r_skip_reason := Some ''black_screen'',
                         r_frame_processed := False\<rparr>, svc)"
    by (simp add: process_frame_def should_process_frame_def)
  have 2: "fst (fst (should_process_frame c (image inp) (frame_skip_mod svc) (frame_analyzer svc))) \<longrightarrow>
      black_screen_stage c inp sid
        (res, svc\<lparr>frame_analyzer :=
                snd (should_process_frame c (image inp) (frame_skip_mod svc) (frame_analyzer svc))\<rparr>) =
        (res, svc\<lparr>frame_analyzer :=
                snd (should_process_frame c (image inp) (frame_skip_mod svc) (frame_analyzer svc))\<rparr>)"
    using spf_admitted_not_black [of c "image inp" "frame_skip_mod svc" "frame_analyzer svc"]
    by (simp add: black_stage_dead)
  from 1 2 nb_process_frame [of cfg c inp sid svc] show ?thesis
    unfolding no_black_def by blast
qed

theorem black_frame_is_skipped_witness:
  "is_black_screen toy_cv (image (quiet_frame 10 0))
     (frame_analyzer (init_service default_settings)) \<and>
   r_status (fst (process_frame default_settings toy_cv (quiet_frame 10 0) ''s1''
                    (init_service default_settings))) = ''skipped'' \<and>
   r_skip_reason (fst (process_frame default_settings toy_cv (quiet_frame 10 0) ''s1''
                         (init_service default_settings))) = Some ''black_screen'' \<and>
   r_violations (fst (process_frame default_settings toy_cv (quiet_frame 10 0) ''s1''
                        (init_service default_settings))) = [] \<and>
   fst (fst (should_process_frame toy_cv (image (quiet_frame 100 0))
               (frame_skip_mod (init_service default_settings))
               (frame_analyzer (init_service default_settings)))) \<and>
   \<not> is_black_screen toy_cv (image (quiet_frame 100 0))
       (snd (should_process_frame toy_cv (image (quiet_frame 100 0))
               (frame_skip_mod (init_service default_settings))
               (frame_analyzer (init_service default_settings))))"
proof -
  have h1: "is_black_screen toy_cv (image (quiet_frame 10 0))
     (frame_analyzer (init_service default_settings))"
    by (simp add: run_defs)
  have h2: "fst (fst (should_process_frame toy_cv (image (quiet_frame 100 0))
               (frame_skip_mod (init_service default_settings))
               (frame_analyzer (init_service default_settings))))"
    by (simp add: run_defs)
  have k: "\<not> is_black_screen toy_cv (image (quiet_frame 100 0))
       (snd (should_process_frame toy_cv (image (quiet_frame 100 0))
               (frame_skip_mod (init_service default_settings))
               (frame_analyzer (init_service default_settings))))"
    by (simp add: run_defs)
  show ?thesis
    using h1 h2 k
      black_frame_is_skipped [of toy_cv "quiet_frame 10 0" "init_service default_settings"
        default_settings "''s1''" initial_results]
    by (simp add: initial_results_def)
qed

end
